theory Spec2Isabelle
  imports Main "HOL-Library.Sublist" "HOL-Library.Word" "HOL-Library.AList"
begin

section \<open>Strings\<close>

text \<open>
  Python strings are modelled as \<^typ>\<open>string\<close>, the UTF-8 bytes of the text. The
  dashboard only concatenates strings and tests them for a trailing slash or for
  emptiness, which read the same on bytes and on code points.
\<close>

definition endswith :: "string \<Rightarrow> string \<Rightarrow> bool" where
  "endswith s t = suffix t s"

text \<open>\<open>s[:-1]\<close>: all but the last character; the empty string stays empty.\<close>

definition drop_last :: "string \<Rightarrow> string" where
  "drop_last s = butlast s"

text \<open>\<open>needle in hay\<close>: a contiguous occurrence.\<close>

definition contains :: "string \<Rightarrow> string \<Rightarrow> bool" where
  "contains hay needle = sublist needle hay"

text \<open>The arrow U+2192 and the en dash U+2013 of the displayed messages.\<close>

definition arrow :: string where
  "arrow = [CHR 0xE2, CHR 0x86, CHR 0x92]"

definition en_dash :: string where
  "en_dash = [CHR 0xE2, CHR 0x80, CHR 0x93]"

text \<open>\<open>str(n)\<close> for a Python integer.\<close>

definition digit :: "nat \<Rightarrow> char" where
  "digit d = char_of (48 + d)"

fun str_nat :: "nat \<Rightarrow> string" where
  "str_nat n = (if n < 10 then [digit n] else str_nat (n div 10) @ [digit (n mod 10)])"

declare str_nat.simps [simp del]

definition str_int :: "int \<Rightarrow> string" where
  "str_int i = (if i < 0 then CHR ''-'' # str_nat (nat (- i)) else str_nat (nat i))"

section \<open>The configuration resolver (lines 11 to 17)\<close>

definition DEFAULT_API :: string where
  "DEFAULT_API = ''https://esa-dropshipping.onrender.com''"

text \<open>
  \<open>st.secrets.get("API_BASE_URL", DEFAULT_API)\<close>, then the sidebar text input whose
  initial value is that string: \<open>edited\<close> is what the user typed, if anything.
\<close>

definition configured :: "(string \<rightharpoonup> string) \<Rightarrow> string option \<Rightarrow> string" where
  "configured secrets edited =
     (let from_secrets = (case secrets ''API_BASE_URL'' of None \<Rightarrow> DEFAULT_API | Some v \<Rightarrow> v)
      in case edited of None \<Rightarrow> from_secrets | Some typed \<Rightarrow> typed)"

text \<open>Lines 16 and 17: one test, one slice.\<close>

definition API_BASE :: "(string \<rightharpoonup> string) \<Rightarrow> string option \<Rightarrow> string" where
  "API_BASE secrets edited =
     (let b = configured secrets edited
      in if endswith b ''/'' then drop_last b else b)"

section \<open>JSON values as Python sees them\<close>

text \<open>
  What \<open>r.json()\<close> returns: \<open>None\<close>, a bool, an int, a float (its IEEE-754 binary64
  bit pattern), a string, a list or a dict. A dict is an association list read with
  \<^const>\<open>map_of\<close>; the empty dict is \<open>JObj []\<close>.
\<close>

datatype json =
    JNull
  | JBool bool
  | JNum int
  | JFloat "64 word"
  | JStr string
  | JList "json list"
  | JObj "(string \<times> json) list"

text \<open>Python truthiness, as \<open>if res:\<close> and \<open>x or y\<close> test it.\<close>

fun truthy :: "json \<Rightarrow> bool" where
  "truthy JNull = False"
| "truthy (JBool b) = b"
| "truthy (JNum n) = (n \<noteq> 0)"
| "truthy (JFloat w) = (push_bit 1 w \<noteq> 0)"
| "truthy (JStr s) = (s \<noteq> [])"
| "truthy (JList xs) = (xs \<noteq> [])"
| "truthy (JObj kvs) = (kvs \<noteq> [])"

definition py_or :: "json \<Rightarrow> json \<Rightarrow> json" where
  "py_or x y = (if truthy x then x else y)"

datatype py_error =
    KeyError string
  | TypeError
  | AttributeError
  | Unmodelled

text \<open>\<open>res.get(k)\<close>: only a dict has the method; a missing key gives \<open>None\<close>.\<close>

fun py_get :: "json \<Rightarrow> string \<Rightarrow> py_error + json" where
  "py_get (JObj kvs) k = Inr (case map_of kvs k of None \<Rightarrow> JNull | Some v \<Rightarrow> v)"
| "py_get _ k = Inl AttributeError"

text \<open>\<open>p[k]\<close> with a string key: a dict raises KeyError on a missing key, anything else
  raises TypeError.\<close>

fun py_item :: "json \<Rightarrow> string \<Rightarrow> py_error + json" where
  "py_item (JObj kvs) k = (case map_of kvs k of None \<Rightarrow> Inl (KeyError k) | Some v \<Rightarrow> Inr v)"
| "py_item _ k = Inl TypeError"

text \<open>\<open>for p in products\<close>: a list gives its elements, a dict its keys, a string its
  characters; the other values are not iterable.\<close>

fun py_iter :: "json \<Rightarrow> py_error + json list" where
  "py_iter (JList xs) = Inr xs"
| "py_iter (JObj kvs) = Inr (map (\<lambda>kv. JStr (fst kv)) kvs)"
| "py_iter (JStr s) = Inr (map (\<lambda>c. JStr [c]) s)"
| "py_iter _ = Inl TypeError"

section \<open>The network, the screen and the session\<close>

datatype http_verb = GET | POST

record request =
  verb :: http_verb
  target :: string
  body :: "json option"
  timeout :: nat

record response =
  status_code :: int
  reason :: string
  resp_url :: string
  resp_text :: string

text \<open>
  \<open>requests.get\<close> and \<open>requests.post\<close> either raise an exception (kept as its
  \<open>str(e)\<close>) or return a response.
\<close>

datatype http_outcome = Raises string | Returns response

text \<open>
  The environment of one run of the script: the network, which answers a request given
  the requests sent before it; the JSON parser behind \<open>r.json()\<close>, which fails with a
  message on a malformed body; and \<open>str()\<close> on a parsed value, used by the f-strings.
\<close>

record env =
  net :: "request list \<Rightarrow> request \<Rightarrow> http_outcome"
  json_loads :: "string \<Rightarrow> string + json"
  py_str :: "json \<Rightarrow> string"

text \<open>What Streamlit is asked to draw. Titles, captions and rulers are left out.\<close>

datatype ui =
    Error string
  | Success string
  | Info string
  | Warning string
  | Metric string int
  | Dataframe json
  | Code string

record state =
  sent :: "request list"
  shown :: "ui list"

definition display :: "ui \<Rightarrow> state \<Rightarrow> state" where
  "display e s = s\<lparr>shown := shown s @ [e]\<rparr>"

text \<open>
  \<open>Response.raise_for_status\<close> of the requests library: an HTTPError for a status from
  400 to 599, whose message names the status, the reason and the URL; nothing otherwise.
\<close>

definition raise_for_status :: "response \<Rightarrow> string option" where
  "raise_for_status r =
     (if 400 \<le> status_code r \<and> status_code r < 500
      then Some (str_int (status_code r) @ '' Client Error: '' @ reason r @ '' for url: '' @ resp_url r)
      else if 500 \<le> status_code r \<and> status_code r < 600
      then Some (str_int (status_code r) @ '' Server Error: '' @ reason r @ '' for url: '' @ resp_url r)
      else None)"

section \<open>The HTTP client wrapper (lines 19 to 41)\<close>

definition get_request :: "string \<Rightarrow> string \<Rightarrow> request" where
  "get_request base path = \<lparr>verb = GET, target = base @ path, body = None, timeout = 20\<rparr>"

definition post_request :: "string \<Rightarrow> string \<Rightarrow> json \<Rightarrow> request" where
  "post_request base path payload =
     \<lparr>verb = POST, target = base @ path, body = Some (py_or payload (JObj [])), timeout = 30\<rparr>"

definition api_get :: "env \<Rightarrow> string \<Rightarrow> string \<Rightarrow> state \<Rightarrow> json \<times> state" where
  "api_get env base path s =
     (let url = base @ path;
          rq = get_request base path;
          s1 = s\<lparr>sent := sent s @ [rq]\<rparr>
      in case net env (sent s) rq of
           Raises e \<Rightarrow> (JNull, display (Error (''GET '' @ url @ '' '' @ arrow @ '' '' @ e)) s1)
         | Returns r \<Rightarrow>
             (case raise_for_status r of
                Some e \<Rightarrow> (JNull, display (Error (''GET '' @ url @ '' '' @ arrow @ '' '' @ e)) s1)
              | None \<Rightarrow>
                  (case json_loads env (resp_text r) of
                     Inl e \<Rightarrow> (JNull, display (Error (''GET '' @ url @ '' '' @ arrow @ '' '' @ e)) s1)
                   | Inr j \<Rightarrow> (j, s1))))"

definition api_post :: "env \<Rightarrow> string \<Rightarrow> string \<Rightarrow> json \<Rightarrow> state \<Rightarrow> json \<times> state" where
  "api_post env base path payload s =
     (let url = base @ path;
          rq = post_request base path payload;
          s1 = s\<lparr>sent := sent s @ [rq]\<rparr>
      in case net env (sent s) rq of
           Raises e \<Rightarrow> (JNull, display (Error (''POST '' @ url @ '' '' @ arrow @ '' '' @ e)) s1)
         | Returns r \<Rightarrow>
             (let s2 = (if status_code r \<ge> 400
                        then display (Error (''POST '' @ url @ '' '' @ arrow @ '' ''
                               @ str_int (status_code r) @ '': '' @ resp_text r)) s1
                        else s1)
              in case raise_for_status r of
                   Some e \<Rightarrow> (JNull, display (Error (''POST '' @ url @ '' '' @ arrow @ '' '' @ e)) s2)
                 | None \<Rightarrow>
                     if resp_text r \<noteq> []
                     then (case json_loads env (resp_text r) of
                             Inl e \<Rightarrow> (JNull, display (Error (''POST '' @ url @ '' '' @ arrow @ '' '' @ e)) s2)
                           | Inr j \<Rightarrow> (j, s2))
                     else (JObj [], s2)))"

section \<open>Message texts\<close>

definition nl :: string where
  "nl = [CHR 0x0A]"

definition dq :: string where
  "dq = [CHR 0x22]"

text \<open>The accented letters of the Spanish texts, in UTF-8.\<close>

definition u_acute :: string where
  "u_acute = [CHR 0xC3, CHR 0xBA]"

definition o_acute :: string where
  "o_acute = [CHR 0xC3, CHR 0xB3]"

definition i_acute :: string where
  "i_acute = [CHR 0xC3, CHR 0xAD]"

definition n_tilde :: string where
  "n_tilde = [CHR 0xC3, CHR 0xB1]"

definition O_acute :: string where
  "O_acute = [CHR 0xC3, CHR 0x93]"

definition orders_missing_info :: string where
  "orders_missing_info =
     ''A'' @ u_acute @ ''n no existe el endpoint **GET /orders** en tu API. Agrega la funci''
     @ o_acute @ ''n list_orders y vuelve a recargar.''"

definition list_orders_code :: string where
  "list_orders_code =
     ''from fastapi import APIRouter, Depends'' @ nl
     @ ''from sqlalchemy.orm import Session'' @ nl
     @ ''from ..database import get_db'' @ nl
     @ ''from .. import models, schemas'' @ nl @ nl
     @ ''@router.get('' @ dq @ ''/'' @ dq @ '', response_model=list[schemas.OrderOut])'' @ nl
     @ ''def list_orders(db: Session = Depends(get_db)):'' @ nl
     @ ''    return db.query(models.Order).all()''"

definition no_orders_info :: string where
  "no_orders_info =
     ''No hay '' @ o_acute @ ''rdenes a'' @ u_acute @ ''n. Crea una en la pesta'' @ n_tilde
     @ ''a **'' @ O_acute @ ''rdenes**.''"

definition no_products_warning :: string where
  "no_products_warning = ''No hay productos. Crea uno en la pesta'' @ n_tilde @ ''a Productos.''"

section \<open>The part of pandas the overview uses\<close>

text \<open>
  \<open>pd.DataFrame(orders)\<close> is modelled for the documented shape of the endpoint, a list
  of records: one row per record, one column per key that occurs. Any other shape is
  \<^const>\<open>Unmodelled\<close>, which says nothing about what pandas does with it.
\<close>

fun rows_of :: "json list \<Rightarrow> (string \<times> json) list list option" where
  "rows_of [] = Some []"
| "rows_of (JObj kvs # xs) = (case rows_of xs of None \<Rightarrow> None | Some rs \<Rightarrow> Some (kvs # rs))"
| "rows_of (_ # xs) = None"

fun DataFrame :: "json \<Rightarrow> py_error + (string \<times> json) list list" where
  "DataFrame (JList xs) = (case rows_of xs of None \<Rightarrow> Inl Unmodelled | Some rs \<Rightarrow> Inr rs)"
| "DataFrame _ = Inl Unmodelled"

definition df_columns :: "(string \<times> json) list list \<Rightarrow> string list" where
  "df_columns rs = remdups (concat (map (map fst) rs))"

text \<open>\<open>df.empty\<close>: no row or no column.\<close>

definition df_empty :: "(string \<times> json) list list \<Rightarrow> bool" where
  "df_empty rs = (rs = [] \<or> df_columns rs = [])"

text \<open>\<open>df[k]\<close>: KeyError when no record has the key; a record without it holds NaN
  (\<open>None\<close> here).\<close>

definition df_column :: "(string \<times> json) list list \<Rightarrow> string \<Rightarrow> py_error + json option list" where
  "df_column rs k =
     (if k \<in> set (df_columns rs) then Inr (map (\<lambda>r. map_of r k) rs) else Inl (KeyError k))"

fun unhashable :: "json \<Rightarrow> bool" where
  "unhashable (JList xs) = True"
| "unhashable (JObj kvs) = True"
| "unhashable _ = False"

fun present :: "json option \<Rightarrow> json list" where
  "present None = []"
| "present (Some v) = (if v = JNull then [] else [v])"

text \<open>
  \<open>Series.value_counts()\<close>: missing values are dropped, the others are counted by
  hashing, so a list or a dict among them raises TypeError. The result is only read at
  string labels, where equality is equality of strings.
\<close>

definition value_counts :: "json option list \<Rightarrow> py_error + (json \<times> nat) list" where
  "value_counts col =
     (let vals = concat (map present col)
      in if list_ex unhashable vals then Inl TypeError
         else Inr (map (\<lambda>v. (v, count_list vals v)) (remdups vals)))"

text \<open>\<open>int(counts.get(k, d))\<close>.\<close>

definition counts_get :: "(json \<times> nat) list \<Rightarrow> json \<Rightarrow> int \<Rightarrow> int" where
  "counts_get counts k d = (case map_of counts k of None \<Rightarrow> d | Some n \<Rightarrow> int n)"

section \<open>The overview panel (lines 58 to 80)\<close>

definition tab_overview :: "env \<Rightarrow> string \<Rightarrow> state \<Rightarrow> py_error option \<times> state" where
  "tab_overview env base s =
     (let (orders, s1) = api_get env base ''/orders'' s
      in if orders = JNull
         then (None, display (Code list_orders_code) (display (Info orders_missing_info) s1))
         else
           (case DataFrame orders of
              Inl e \<Rightarrow> (Some e, s1)
            | Inr df_orders \<Rightarrow>
                if \<not> df_empty df_orders
                then
                  (case df_column df_orders ''status'' of
                     Inl e \<Rightarrow> (Some e, s1)
                   | Inr col \<Rightarrow>
                       (case value_counts col of
                          Inl e \<Rightarrow> (Some e, s1)
                        | Inr counts \<Rightarrow>
                            (let s2 = display (Metric ''Pending'' (counts_get counts (JStr ''pending'') 0)) s1;
                                 s3 = display (Metric ''Forwarding'' (counts_get counts (JStr ''forwarding'') 0)) s2;
                                 s4 = display (Metric ''At DF'' (counts_get counts (JStr ''at_df'') 0)) s3;
                                 s5 = display (Metric ''En MX'' (counts_get counts (JStr ''in_transit_mx'') 0)) s4;
                                 s6 = display (Metric ''Entregadas'' (counts_get counts (JStr ''delivered'') 0)) s5
                             in (None, display (Dataframe orders) s6))))
                else (None, display (Info no_orders_info) s1)))"

section \<open>The product form (lines 92 to 111)\<close>

text \<open>Lines 110 and 111: what the form does with the result of the POST.\<close>

definition create_product_confirm :: "env \<Rightarrow> json \<Rightarrow> state \<Rightarrow> py_error option \<times> state" where
  "create_product_confirm env res s =
     (if truthy res
      then (case py_get res ''id'' of
              Inl e \<Rightarrow> (Some e, s)
            | Inr i \<Rightarrow>
                (case py_get res ''name'' of
                   Inl e \<Rightarrow> (Some e, s)
                 | Inr n \<Rightarrow>
                     (None, display (Success (''Producto creado: '' @ py_str env i @ '' '' @ en_dash
                                       @ '' '' @ py_str env n)) s)))
      else (None, s))"

text \<open>Lines 101 to 108.\<close>

definition product_payload :: "string \<Rightarrow> string \<Rightarrow> string \<Rightarrow> 64 word \<Rightarrow> 64 word \<Rightarrow> string \<Rightarrow> json" where
  "product_payload sku name description price_usd weight_kg origin =
     JObj [(''sku'', JStr sku), (''name'', JStr name), (''description'', JStr description),
           (''price_usd'', JFloat price_usd), (''weight_kg'', JFloat weight_kg),
           (''origin'', JStr origin)]"

definition create_product ::
  "env \<Rightarrow> string \<Rightarrow> string \<Rightarrow> string \<Rightarrow> string \<Rightarrow> 64 word \<Rightarrow> 64 word \<Rightarrow> string \<Rightarrow> bool
     \<Rightarrow> state \<Rightarrow> py_error option \<times> state" where
  "create_product env base sku name description price_usd weight_kg origin submitted s =
     (if submitted
      then (let payload = product_payload sku name description price_usd weight_kg origin;
                (res, s1) = api_post env base ''/products/'' payload s
            in create_product_confirm env res s1)
      else (None, s))"

section \<open>The order form (lines 116 to 150)\<close>

text \<open>One pass of the dict comprehension of line 117: the label and the id of \<open>p\<close>.\<close>

definition product_entry :: "env \<Rightarrow> json \<Rightarrow> py_error + (string \<times> json)" where
  "product_entry env p =
     (case py_item p ''id'' of
        Inl e \<Rightarrow> Inl e
      | Inr i \<Rightarrow>
          (case py_item p ''name'' of
             Inl e \<Rightarrow> Inl e
           | Inr n \<Rightarrow>
               (case py_item p ''sku'' of
                  Inl e \<Rightarrow> Inl e
                | Inr k \<Rightarrow>
                    Inr (''['' @ py_str env i @ ''] '' @ py_str env n @ '' (SKU '' @ py_str env k @ '')'',
                         i))))"

text \<open>The comprehension: a later product with the same label replaces the id and keeps
  the place of the label.\<close>

fun product_map :: "env \<Rightarrow> json list \<Rightarrow> (string \<times> json) list \<Rightarrow> py_error + (string \<times> json) list" where
  "product_map env [] acc = Inr acc"
| "product_map env (p # ps) acc =
     (case product_entry env p of
        Inl e \<Rightarrow> Inl e
      | Inr kv \<Rightarrow> product_map env ps (AList.update (fst kv) (snd kv) acc))"

text \<open>\<open>st.selectbox\<close> returns one of its options: the one the user picked, the first
  when the pick is out of range. It is only called on a list that is not empty.\<close>

definition selectbox :: "'a list \<Rightarrow> nat \<Rightarrow> 'a" where
  "selectbox options i = options ! (if i < length options then i else 0)"

text \<open>Lines 149 and 150.\<close>

definition create_order_confirm :: "env \<Rightarrow> json \<Rightarrow> state \<Rightarrow> py_error option \<times> state" where
  "create_order_confirm env res s =
     (if truthy res
      then (case py_get res ''id'' of
              Inl e \<Rightarrow> (Some e, s)
            | Inr i \<Rightarrow>
                (case py_get res ''customer_name'' of
                   Inl e \<Rightarrow> (Some e, s)
                 | Inr n \<Rightarrow>
                     (None, display (Success (''Orden creada: #'' @ py_str env i @ '' para ''
                                       @ py_str env n)) s)))
      else (None, s))"

text \<open>Lines 140 to 147.\<close>

definition order_payload :: "string \<Rightarrow> string \<Rightarrow> string \<Rightarrow> string \<Rightarrow> string \<Rightarrow> json list \<Rightarrow> json" where
  "order_payload customer_name customer_email ship_to_city ship_to_state ship_to_zip items =
     JObj [(''customer_name'', JStr customer_name), (''customer_email'', JStr customer_email),
           (''ship_to_city'', JStr ship_to_city), (''ship_to_state'', JStr ship_to_state),
           (''ship_to_zip'', JStr ship_to_zip), (''items'', JList items)]"

text \<open>Lines 135 to 150: the submit button and what follows it.\<close>

definition create_order_submit ::
  "env \<Rightarrow> string \<Rightarrow> string \<Rightarrow> string \<Rightarrow> string \<Rightarrow> string \<Rightarrow> string \<Rightarrow> json list \<Rightarrow> bool
     \<Rightarrow> state \<Rightarrow> py_error option \<times> state" where
  "create_order_submit env base customer_name customer_email ship_to_city ship_to_state
       ship_to_zip items submitted s =
     (if submitted
      then (if items = [] then (None, display (Error ''Agrega al menos un producto.'') s)
            else (let payload = order_payload customer_name customer_email ship_to_city
                                  ship_to_state ship_to_zip items;
                      (res, s1) = api_post env base ''/orders/'' payload s
                  in create_order_confirm env res s1))
      else (None, s))"

definition create_order ::
  "env \<Rightarrow> string \<Rightarrow> string \<Rightarrow> string \<Rightarrow> string \<Rightarrow> string \<Rightarrow> string \<Rightarrow> nat \<Rightarrow> int \<Rightarrow> bool
     \<Rightarrow> state \<Rightarrow> py_error option \<times> state" where
  "create_order env base customer_name customer_email ship_to_city ship_to_state ship_to_zip
       choice qty submitted s =
     (let (fetched, s1) = api_get env base ''/products'' s;
          products = py_or fetched (JList [])
      in case py_iter products of
           Inl e \<Rightarrow> (Some e, s1)
         | Inr ps \<Rightarrow>
             (case product_map env ps [] of
                Inl e \<Rightarrow> (Some e, s1)
              | Inr pm \<Rightarrow>
                  if pm \<noteq> []
                  then (let prod_label = selectbox (map fst pm) choice
                        in case map_of pm prod_label of
                             None \<Rightarrow> (Some (KeyError prod_label), s1)
                           | Some pid \<Rightarrow>
                               create_order_submit env base customer_name customer_email
                                 ship_to_city ship_to_state ship_to_zip
                                 [JObj [(''product_id'', pid), (''qty'', JNum qty)]] submitted s1)
                  else create_order_submit env base customer_name customer_email
                         ship_to_city ship_to_state ship_to_zip [] submitted
                         (display (Warning no_products_warning) s1)))"

section \<open>The shipping forms (lines 165 to 194)\<close>

text \<open>Lines 181 and 182.\<close>

definition create_shipment_confirm :: "env \<Rightarrow> json \<Rightarrow> state \<Rightarrow> py_error option \<times> state" where
  "create_shipment_confirm env res s =
     (if truthy res
      then (case py_get res ''id'' of
              Inl e \<Rightarrow> (Some e, s)
            | Inr i \<Rightarrow>
                (case py_get res ''order_id'' of
                   Inl e \<Rightarrow> (Some e, s)
                 | Inr n \<Rightarrow>
                     (None, display (Success (''Env'' @ i_acute @ ''o creado: #'' @ py_str env i
                                       @ '' (order '' @ py_str env n @ '')'')) s)))
      else (None, s))"

text \<open>Lines 173 to 179.\<close>

definition shipment_payload :: "int \<Rightarrow> string \<Rightarrow> string \<Rightarrow> string \<Rightarrow> string \<Rightarrow> json" where
  "shipment_payload order_id carrier tracking dest_city dest_state =
     JObj [(''order_id'', JNum order_id), (''carrier'', JStr carrier),
           (''tracking'', JStr tracking), (''dest_city'', JStr dest_city),
           (''dest_state'', JStr dest_state)]"

definition create_shipment ::
  "env \<Rightarrow> string \<Rightarrow> int \<Rightarrow> string \<Rightarrow> string \<Rightarrow> string \<Rightarrow> string \<Rightarrow> bool
     \<Rightarrow> state \<Rightarrow> py_error option \<times> state" where
  "create_shipment env base order_id carrier tracking dest_city dest_state submitted s =
     (if submitted
      then (let payload = shipment_payload order_id carrier tracking dest_city dest_state;
                (res, s1) = api_post env base ''/shipping/create'' payload s
            in create_shipment_confirm env res s1)
      else (None, s))"

text \<open>Lines 193 and 194: \<open>res and res.get("ok")\<close> asks for the field only when \<open>res\<close>
  is truthy.\<close>

definition update_status_confirm ::
  "int \<Rightarrow> string \<Rightarrow> json \<Rightarrow> state \<Rightarrow> py_error option \<times> state" where
  "update_status_confirm shipment_id new_status res s =
     (if truthy res
      then (case py_get res ''ok'' of
              Inl e \<Rightarrow> (Some e, s)
            | Inr ok \<Rightarrow>
                if truthy ok
                then (None, display (Success (''Shipment '' @ str_int shipment_id @ '' '' @ arrow
                                       @ '' '' @ new_status)) s)
                else (None, s))
      else (None, s))"

text \<open>Line 191.\<close>

definition status_path :: "int \<Rightarrow> string \<Rightarrow> string" where
  "status_path shipment_id new_status =
     ''/shipping/'' @ str_int shipment_id @ ''/status/'' @ new_status"

definition update_status ::
  "env \<Rightarrow> string \<Rightarrow> int \<Rightarrow> string \<Rightarrow> bool \<Rightarrow> state \<Rightarrow> py_error option \<times> state" where
  "update_status env base shipment_id new_status submitted2 s =
     (if submitted2
      then (let path = status_path shipment_id new_status;
                (res, s1) = api_post env base path (JObj []) s
            in update_status_confirm shipment_id new_status res s1)
      else (None, s))"

section \<open>What the overview is meant to show\<close>

text \<open>
  These follow the words of the specification, not the code: an order is a record with
  a status, which is a string, and the metric of a status is the number of orders that
  carry it.
\<close>

fun is_order :: "json \<Rightarrow> bool" where
  "is_order (JObj kvs) = (case map_of kvs ''status'' of Some (JStr k) \<Rightarrow> True | _ \<Rightarrow> False)"
| "is_order _ = False"

fun status_is :: "string \<Rightarrow> json \<Rightarrow> bool" where
  "status_is k (JObj kvs) = (map_of kvs ''status'' = Some (JStr k))"
| "status_is k _ = False"

definition orders_with_status :: "string \<Rightarrow> json list \<Rightarrow> nat" where
  "orders_with_status k orders = length (filter (status_is k) orders)"

section \<open>Sample environments\<close>

text \<open>A parser for the few bodies the examples use; everything else is malformed.\<close>

definition ok_body :: "string \<Rightarrow> string" where
  "ok_body v = ''{'' @ dq @ ''ok'' @ dq @ '': '' @ v @ ''}''"

definition sample_loads :: "string \<Rightarrow> string + json" where
  "sample_loads b =
     (if b = ''[]'' then Inr (JList [])
      else if b = ''{}'' then Inr (JObj [])
      else if b = ''null'' then Inr JNull
      else if b = ok_body ''true'' then Inr (JObj [(''ok'', JBool True)])
      else if b = ok_body ''false'' then Inr (JObj [(''ok'', JBool False)])
      else if b = ok_body (dq @ ''no'' @ dq) then Inr (JObj [(''ok'', JStr ''no'')])
      else Inl ''Expecting value: line 1 column 1 (char 0)'')"

fun sample_str :: "json \<Rightarrow> string" where
  "sample_str JNull = ''None''"
| "sample_str (JBool b) = (if b then ''True'' else ''False'')"
| "sample_str (JNum n) = str_int n"
| "sample_str (JStr s) = s"
| "sample_str _ = ''...''"

text \<open>A network that answers every request in the same way.\<close>

definition fixed_env :: "http_outcome \<Rightarrow> env" where
  "fixed_env out = \<lparr>net = (\<lambda>log rq. out), json_loads = sample_loads, py_str = sample_str\<rparr>"

definition fresh :: state where
  "fresh = \<lparr>sent = [], shown = []\<rparr>"

definition reply :: "int \<Rightarrow> string \<Rightarrow> string \<Rightarrow> http_outcome" where
  "reply code why b =
     Returns \<lparr>status_code = code, reason = why, resp_url = ''http://localhost:8000/orders'',
              resp_text = b\<rparr>"

text \<open>A server whose every answer is a 200 with a body that parses to \<open>j\<close>.\<close>

definition parsed_env :: "json \<Rightarrow> env" where
  "parsed_env j =
     \<lparr>net = (\<lambda>log rq. reply 200 ''OK'' ''data''), json_loads = (\<lambda>b. Inr j), py_str = sample_str\<rparr>"

definition three_orders :: json where
  "three_orders = JList [JObj [(''status'', JStr ''pending'')],
                         JObj [(''status'', JStr ''pending'')],
                         JObj [(''status'', JStr ''delivered'')]]"

definition one_product :: json where
  "one_product = JList [JObj [(''id'', JNum 7), (''sku'', JStr ''WAL-0001''),
                              (''name'', JStr ''Playera'')]]"

section \<open>Properties of the resolver\<close>

lemma endswith_slash_iff: "endswith s ''/'' \<longleftrightarrow> (\<exists>u. s = u @ ''/'')"
  by (auto simp: endswith_def suffix_def)

lemma endswith_rev: "endswith s t \<longleftrightarrow> prefix (rev t) (rev s)"
  by (simp add: endswith_def suffix_to_prefix)

lemma endswith_two_iff: "endswith s ''//'' \<longleftrightarrow> (\<exists>u. s = u @ ''//'')"
  by (auto simp: endswith_def suffix_def)

text \<open>
  C7. When the configured base URL ends in a slash, the resolved one is the configured
  one without its last character, so exactly one slash goes and the rest stays; when it
  does not end in a slash it is returned as it is.
\<close>

theorem API_BASE_strips_one_slash:
  "(endswith (configured secrets edited) ''/'' \<longrightarrow>
      API_BASE secrets edited @ ''/'' = configured secrets edited) \<and>
   (\<not> endswith (configured secrets edited) ''/'' \<longrightarrow>
      API_BASE secrets edited = configured secrets edited)"
  by (auto simp: API_BASE_def Let_def drop_last_def endswith_slash_iff)

theorem API_BASE_strips_one_slash_witness:
  "endswith (configured Map.empty (Some ''http://localhost:8000/'')) ''/'' \<and>
   API_BASE Map.empty (Some ''http://localhost:8000/'') @ ''/'' = ''http://localhost:8000/'' \<and>
   \<not> endswith (configured Map.empty None) ''/'' \<and>
   API_BASE Map.empty None = DEFAULT_API"
  using API_BASE_strips_one_slash [of Map.empty "Some ''http://localhost:8000/''"]
    API_BASE_strips_one_slash [of Map.empty None]
  by (simp add: configured_def endswith_rev DEFAULT_API_def)

text \<open>
  C8, as stated, fails: a configured URL ending in two slashes keeps one of them.
\<close>

theorem API_BASE_trailing_slash_counterexample:
  "endswith (API_BASE Map.empty (Some ''http://localhost:8000//'')) ''/''"
  by (simp add: API_BASE_def configured_def endswith_rev drop_last_def)

text \<open>
  C8, amended. When the configured base URL does not end in two slashes, the resolved
  base URL does not end in a slash.
\<close>

theorem API_BASE_no_trailing_slash:
  "\<not> endswith (configured secrets edited) ''//'' \<Longrightarrow>
   \<not> endswith (API_BASE secrets edited) ''/''"
  by (auto simp: API_BASE_def Let_def drop_last_def endswith_slash_iff endswith_two_iff)

theorem API_BASE_no_trailing_slash_witness:
  "\<not> endswith (configured Map.empty (Some ''http://localhost:8000/'')) ''//'' \<and>
   \<not> endswith (API_BASE Map.empty (Some ''http://localhost:8000/'')) ''/''"
  using API_BASE_no_trailing_slash [of Map.empty "Some ''http://localhost:8000/''"]
  by (simp add: configured_def endswith_rev)

section \<open>Properties of the HTTP client wrapper\<close>

lemma contains_mid: "contains (p @ x @ q) x"
  by (simp add: contains_def)

lemma contains_end: "contains (p @ x) x"
  by (simp add: contains_def)

lemma raise_for_status_error:
  "400 \<le> status_code r \<Longrightarrow> status_code r < 600 \<Longrightarrow> \<exists>e. raise_for_status r = Some e"
  by (simp add: raise_for_status_def)

lemma raise_for_status_ok:
  "status_code r < 400 \<Longrightarrow> raise_for_status r = None"
  by (simp add: raise_for_status_def)

text \<open>
  C1, as stated, fails: \<open>raise_for_status\<close> lets every status below 400 through, so a
  response with status 300 and the body \<open>[]\<close> is returned parsed, with no message.
\<close>

theorem api_get_redirect_counterexample:
  "net (fixed_env (reply 300 ''Multiple Choices'' ''[]'')) (sent fresh)
       (get_request ''http://localhost:8000'' ''/orders'') = reply 300 ''Multiple Choices'' ''[]'' \<and>
   api_get (fixed_env (reply 300 ''Multiple Choices'' ''[]'')) ''http://localhost:8000'' ''/orders'' fresh
     = (JList [], \<lparr>sent = [get_request ''http://localhost:8000'' ''/orders''], shown = []\<rparr>)"
  by (simp add: api_get_def fixed_env_def reply_def fresh_def raise_for_status_def sample_loads_def
      ok_body_def dq_def)

text \<open>
  C1, amended. When the GET raises a transport error, or is answered with a status from
  400 to 599, \<open>api_get\<close> returns \<open>None\<close> and shows exactly one error message, which
  contains the requested URL. The function has no other outcome than a value and a
  state: the handler catches every \<open>Exception\<close>.
\<close>

theorem api_get_failure:
  assumes "net env (sent s) (get_request base path) = Raises e \<or>
           (\<exists>r. net env (sent s) (get_request base path) = Returns r \<and>
                400 \<le> status_code r \<and> status_code r < 600)"
  shows "fst (api_get env base path s) = JNull \<and>
         (\<exists>msg. snd (api_get env base path s)
                  = s\<lparr>sent := sent s @ [get_request base path], shown := shown s @ [Error msg]\<rparr> \<and>
                contains msg (base @ path))"
  using assms
proof
  assume "net env (sent s) (get_request base path) = Raises e"
  then show ?thesis
    using contains_mid [of "''GET ''" "base @ path"]
    by (auto simp: api_get_def display_def)
next
  assume "\<exists>r. net env (sent s) (get_request base path) = Returns r \<and>
                400 \<le> status_code r \<and> status_code r < 600"
  then obtain r where r: "net env (sent s) (get_request base path) = Returns r"
    and "400 \<le> status_code r" "status_code r < 600" by blast
  then obtain e' where "raise_for_status r = Some e'"
    using raise_for_status_error by blast
  with r show ?thesis
    using contains_mid [of "''GET ''" "base @ path"]
    by (auto simp: api_get_def display_def)
qed

theorem api_get_failure_witness:
  "fst (api_get (fixed_env (Raises ''timed out'')) ''http://localhost:8000'' ''/orders'' fresh) = JNull \<and>
   fst (api_get (fixed_env (reply 404 ''Not Found'' ''{}'')) ''http://localhost:8000'' ''/orders'' fresh) = JNull"
  using api_get_failure [of "fixed_env (Raises ''timed out'')" fresh "''http://localhost:8000''" "''/orders''" "''timed out''"]
    api_get_failure [of "fixed_env (reply 404 ''Not Found'' ''{}'')" fresh "''http://localhost:8000''" "''/orders''"]
  by (simp add: fixed_env_def reply_def)

lemma digit_values:
  "digit 0 = CHR ''0''" "digit 1 = CHR ''1''" "digit 2 = CHR ''2''" "digit 3 = CHR ''3''"
  "digit 4 = CHR ''4''" "digit 5 = CHR ''5''" "digit 6 = CHR ''6''" "digit 7 = CHR ''7''"
  "digit 8 = CHR ''8''" "digit 9 = CHR ''9''" "digit (Suc 0) = CHR ''1''"
  by code_simp+

lemma digit_table: "d < 10 \<Longrightarrow> digit d = ''0123456789'' ! d"
proof -
  assume "d < 10"
  then consider "d = 0" | "d = 1" | "d = 2" | "d = 3" | "d = 4" | "d = 5" | "d = 6" | "d = 7"
    | "d = 8" | "d = 9"
    by atomize_elim arith
  then show ?thesis
    by cases (simp_all add: digit_values)
qed

lemma str_nat_three:
  assumes "100 \<le> n" and "n < 1000"
  shows "str_nat n = [digit (n div 100), digit (n div 10 mod 10), digit (n mod 10)]"
proof -
  have 1: "str_nat n = str_nat (n div 10) @ [digit (n mod 10)]"
    using assms by (subst str_nat.simps) simp
  have 2: "str_nat (n div 10) = str_nat (n div 10 div 10) @ [digit (n div 10 mod 10)]"
    using assms by (subst str_nat.simps) simp
  have 3: "str_nat (n div 10 div 10) = [digit (n div 10 div 10)]"
    using assms by (subst str_nat.simps) simp
  have "n div 10 div 10 = n div 100" by (simp add: div_mult2_eq [symmetric])
  with 1 2 3 show ?thesis by simp
qed

lemma str_int_three:
  assumes "100 \<le> i" and "i < 1000"
  shows "str_int i = [''0123456789'' ! (nat i div 100), ''0123456789'' ! (nat i div 10 mod 10),
                      ''0123456789'' ! (nat i mod 10)]"
proof -
  have "nat i div 100 < 10" using assms by (simp add: less_mult_imp_div_less)
  moreover have "nat i div 10 mod 10 < 10" "nat i mod 10 < 10" by simp_all
  moreover have "str_int i = str_nat (nat i)" using assms by (simp add: str_int_def)
  ultimately show ?thesis
    using str_nat_three [of "nat i"] assms by (simp add: digit_table)
qed

text \<open>
  C2. When the POST is answered with a status from 400 to 599, \<open>api_post\<close> returns
  \<open>None\<close> and shows two error messages; the first one contains the status code,
  written as its three decimal digits, and the raw body of the response. For the status
  422 and the body \<open>{}\<close> it ends in \<open>422: {}\<close>.
\<close>

theorem api_post_error_status:
  assumes "net env (sent s) (post_request base path payload) = Returns r"
    and "400 \<le> status_code r" and "status_code r < 600"
  shows "fst (api_post env base path payload s) = JNull \<and>
         (\<exists>msg later.
            shown (snd (api_post env base path payload s)) = shown s @ [Error msg, Error later] \<and>
            msg = ''POST '' @ base @ path @ '' '' @ arrow @ '' '' @ str_int (status_code r)
                    @ '': '' @ resp_text r \<and>
            contains msg (str_int (status_code r)) \<and> contains msg (resp_text r)) \<and>
         str_int (status_code r)
           = [''0123456789'' ! (nat (status_code r) div 100),
              ''0123456789'' ! (nat (status_code r) div 10 mod 10),
              ''0123456789'' ! (nat (status_code r) mod 10)]"
proof -
  obtain e where e: "raise_for_status r = Some e"
    using assms(2,3) raise_for_status_error by blast
  have c1: "contains (''POST '' @ base @ path @ '' '' @ arrow @ '' '' @ str_int (status_code r)
                    @ '': '' @ resp_text r) (str_int (status_code r))"
    using contains_mid [of "''POST '' @ base @ path @ '' '' @ arrow @ '' ''"
        "str_int (status_code r)" "'': '' @ resp_text r"] by simp
  have c2: "contains (''POST '' @ base @ path @ '' '' @ arrow @ '' '' @ str_int (status_code r)
                    @ '': '' @ resp_text r) (resp_text r)"
    using contains_end [of "''POST '' @ base @ path @ '' '' @ arrow @ '' ''
        @ str_int (status_code r) @ '': ''" "resp_text r"] by simp
  have digits: "str_int (status_code r)
           = [''0123456789'' ! (nat (status_code r) div 100),
              ''0123456789'' ! (nat (status_code r) div 10 mod 10),
              ''0123456789'' ! (nat (status_code r) mod 10)]"
    using assms(2,3) by (intro str_int_three) simp_all
  show ?thesis
    using assms(1,2) e c1 c2 digits by (simp add: api_post_def display_def Let_def)
qed

theorem api_post_error_status_witness:
  "fst (api_post (fixed_env (reply 422 ''Unprocessable Entity'' ''{}'')) ''http://localhost:8000''
         ''/orders/'' (JObj []) fresh) = JNull \<and>
   (\<exists>later. shown (snd (api_post (fixed_env (reply 422 ''Unprocessable Entity'' ''{}''))
         ''http://localhost:8000'' ''/orders/'' (JObj []) fresh))
      = [Error (''POST http://localhost:8000/orders/ '' @ arrow @ '' 422: {}''), Error later]) \<and>
   str_int 422 = ''422'' \<and>
   contains (''POST http://localhost:8000/orders/ '' @ arrow @ '' 422: {}'') ''422''"
  using api_post_error_status [of "fixed_env (reply 422 ''Unprocessable Entity'' ''{}'')" fresh
      "''http://localhost:8000''" "''/orders/''" "JObj []"
      "\<lparr>status_code = 422, reason = ''Unprocessable Entity'',
        resp_url = ''http://localhost:8000/orders'', resp_text = ''{}''\<rparr>"]
  by (auto simp: fixed_env_def reply_def fresh_def)

text \<open>
  C3. When the POST is answered with a status from 200 to 299 and an empty body,
  \<open>api_post\<close> returns the empty dict and shows nothing; the result is not \<open>None\<close>.
\<close>

theorem api_post_empty_body:
  assumes "net env (sent s) (post_request base path payload) = Returns r"
    and "200 \<le> status_code r" and "status_code r < 300" and "resp_text r = []"
  shows "api_post env base path payload s
           = (JObj [], s\<lparr>sent := sent s @ [post_request base path payload]\<rparr>) \<and>
         fst (api_post env base path payload s) \<noteq> JNull"
  using assms by (simp add: api_post_def Let_def raise_for_status_ok)

theorem api_post_empty_body_witness:
  "api_post (fixed_env (reply 204 ''No Content'' [])) ''http://localhost:8000''
      ''/shipping/1/status/at_df'' (JObj []) fresh
     = (JObj [], \<lparr>sent = [post_request ''http://localhost:8000'' ''/shipping/1/status/at_df'' (JObj [])],
                   shown = []\<rparr>)"
  using api_post_empty_body [of "fixed_env (reply 204 ''No Content'' [])" fresh
      "''http://localhost:8000''" "''/shipping/1/status/at_df''" "JObj []"
      "\<lparr>status_code = 204, reason = ''No Content'',
        resp_url = ''http://localhost:8000/orders'', resp_text = []\<rparr>"]
  by (simp add: fixed_env_def reply_def fresh_def)

text \<open>
  C9. When a response has a status from 200 to 299 and a body that is not empty and
  does not parse as JSON, \<open>api_get\<close> and \<open>api_post\<close> both return \<open>None\<close> after showing
  one error message, and each gives exactly the result and the screen it gives when the
  request itself raises an exception with the same text: the caller cannot tell the two
  apart.
\<close>

theorem malformed_body_gives_null:
  assumes "200 \<le> status_code r" and "status_code r < 300" and "resp_text r \<noteq> []"
    and "json_loads env (resp_text r) = Inl e"
  shows "(net env (sent s) (get_request base path) = Returns r \<longrightarrow>
            api_get env base path s
              = (JNull, s\<lparr>sent := sent s @ [get_request base path],
                           shown := shown s @ [Error (''GET '' @ base @ path @ '' '' @ arrow @ '' '' @ e)]\<rparr>) \<and>
            api_get env base path s = api_get (env\<lparr>net := \<lambda>log rq. Raises e\<rparr>) base path s) \<and>
         (net env (sent s) (post_request base path payload) = Returns r \<longrightarrow>
            api_post env base path payload s
              = (JNull, s\<lparr>sent := sent s @ [post_request base path payload],
                           shown := shown s @ [Error (''POST '' @ base @ path @ '' '' @ arrow @ '' '' @ e)]\<rparr>) \<and>
            api_post env base path payload s
              = api_post (env\<lparr>net := \<lambda>log rq. Raises e\<rparr>) base path payload s)"
  using assms by (simp add: api_get_def api_post_def Let_def raise_for_status_ok display_def)

theorem malformed_body_gives_null_witness:
  "api_get (fixed_env (reply 200 ''OK'' ''<html>'')) ''http://localhost:8000'' ''/orders'' fresh
     = (JNull, \<lparr>sent = [get_request ''http://localhost:8000'' ''/orders''],
                 shown = [Error (''GET http://localhost:8000/orders '' @ arrow
                                  @ '' Expecting value: line 1 column 1 (char 0)'')]\<rparr>) \<and>
   fst (api_post (fixed_env (reply 200 ''OK'' ''<html>'')) ''http://localhost:8000'' ''/orders/''
          (JObj []) fresh) = JNull"
  using malformed_body_gives_null [of
      "\<lparr>status_code = 200, reason = ''OK'',
        resp_url = ''http://localhost:8000/orders'', resp_text = ''<html>''\<rparr>"
      "fixed_env (reply 200 ''OK'' ''<html>'')" "''Expecting value: line 1 column 1 (char 0)''"
      fresh "''http://localhost:8000''" "''/orders''" "JObj []"]
    malformed_body_gives_null [of
      "\<lparr>status_code = 200, reason = ''OK'',
        resp_url = ''http://localhost:8000/orders'', resp_text = ''<html>''\<rparr>"
      "fixed_env (reply 200 ''OK'' ''<html>'')" "''Expecting value: line 1 column 1 (char 0)''"
      fresh "''http://localhost:8000''" "''/orders/''" "JObj []"]
  by (simp add: fixed_env_def reply_def fresh_def sample_loads_def ok_body_def dq_def)

section \<open>Properties of the forms\<close>

lemma api_post_2xx_empty:
  "net env (sent s) (post_request base path payload) = Returns r \<Longrightarrow>
   200 \<le> status_code r \<Longrightarrow> status_code r < 300 \<Longrightarrow> resp_text r = [] \<Longrightarrow>
   api_post env base path payload s
     = (JObj [], s\<lparr>sent := sent s @ [post_request base path payload]\<rparr>)"
  by (simp add: api_post_def Let_def raise_for_status_ok)

text \<open>
  C6, as stated, fails: line 193 tests the truthiness of the field, so the response
  \<open>{"ok": "no"}\<close>, whose \<open>ok\<close> field is not \<open>true\<close>, shows the confirmation.
\<close>

theorem update_status_text_ok_counterexample:
  "map_of [(''ok'', JStr ''no'')] ''ok'' \<noteq> Some (JBool True) \<and>
   api_post (fixed_env (reply 200 ''OK'' (ok_body (dq @ ''no'' @ dq)))) ''http://localhost:8000''
       (status_path 1 ''delivered'') (JObj []) fresh
     = (JObj [(''ok'', JStr ''no'')],
        \<lparr>sent = [post_request ''http://localhost:8000'' (status_path 1 ''delivered'') (JObj [])],
          shown = []\<rparr>) \<and>
   shown (snd (update_status (fixed_env (reply 200 ''OK'' (ok_body (dq @ ''no'' @ dq))))
                 ''http://localhost:8000'' 1 ''delivered'' True fresh))
     = [Success (''Shipment '' @ str_int 1 @ '' '' @ arrow @ '' delivered'')]"
  by (simp add: update_status_def update_status_confirm_def api_post_def fixed_env_def reply_def
      fresh_def raise_for_status_def sample_loads_def ok_body_def dq_def display_def Let_def)

text \<open>
  C6, amended. After a submitted status update, the confirmation is shown if and only
  if the result of the POST is a dict whose \<open>ok\<close> field is truthy; then it is the only
  thing the form adds to the screen. For \<open>{"ok": false}\<close>, \<open>None\<close>, the empty dict, a
  dict without a truthy \<open>ok\<close> field and any result that is not a dict, nothing is added.
\<close>

theorem update_status_success_iff:
  assumes "api_post env base (status_path shipment_id new_status) (JObj []) s = (res, s1)"
  shows "((\<exists>kvs v. res = JObj kvs \<and> map_of kvs ''ok'' = Some v \<and> truthy v) \<longrightarrow>
            shown (snd (update_status env base shipment_id new_status True s))
              = shown s1 @ [Success (''Shipment '' @ str_int shipment_id @ '' '' @ arrow @ '' ''
                                      @ new_status)]) \<and>
         (\<not> (\<exists>kvs v. res = JObj kvs \<and> map_of kvs ''ok'' = Some v \<and> truthy v) \<longrightarrow>
            shown (snd (update_status env base shipment_id new_status True s)) = shown s1)"
proof (cases res)
  case (JObj kvs)
  then show ?thesis
    using assms
    by (cases "map_of kvs ''ok''")
       (auto simp: update_status_def update_status_confirm_def display_def)
qed (use assms in \<open>auto simp: update_status_def update_status_confirm_def display_def\<close>)

theorem update_status_success_iff_witness:
  "shown (snd (update_status (fixed_env (reply 200 ''OK'' (ok_body ''true''))) ''http://localhost:8000''
                 7 ''at_df'' True fresh))
     = [Success (''Shipment '' @ str_int 7 @ '' '' @ arrow @ '' at_df'')] \<and>
   shown (snd (update_status (fixed_env (reply 200 ''OK'' (ok_body ''false''))) ''http://localhost:8000''
                 7 ''at_df'' True fresh)) = [] \<and>
   shown (snd (update_status (fixed_env (reply 200 ''OK'' [])) ''http://localhost:8000''
                 7 ''at_df'' True fresh)) = []"
proof -
  have t: "api_post (fixed_env (reply 200 ''OK'' (ok_body ''true''))) ''http://localhost:8000''
             (status_path 7 ''at_df'') (JObj []) fresh
           = (JObj [(''ok'', JBool True)],
              \<lparr>sent = [post_request ''http://localhost:8000'' (status_path 7 ''at_df'') (JObj [])],
                shown = []\<rparr>)"
    by (simp add: api_post_def fixed_env_def reply_def fresh_def raise_for_status_def
        sample_loads_def ok_body_def dq_def Let_def)
  have f: "api_post (fixed_env (reply 200 ''OK'' (ok_body ''false''))) ''http://localhost:8000''
             (status_path 7 ''at_df'') (JObj []) fresh
           = (JObj [(''ok'', JBool False)],
              \<lparr>sent = [post_request ''http://localhost:8000'' (status_path 7 ''at_df'') (JObj [])],
                shown = []\<rparr>)"
    by (simp add: api_post_def fixed_env_def reply_def fresh_def raise_for_status_def
        sample_loads_def ok_body_def dq_def Let_def)
  have e: "api_post (fixed_env (reply 200 ''OK'' [])) ''http://localhost:8000''
             (status_path 7 ''at_df'') (JObj []) fresh
           = (JObj [],
              \<lparr>sent = [post_request ''http://localhost:8000'' (status_path 7 ''at_df'') (JObj [])],
                shown = []\<rparr>)"
    by (simp add: api_post_def fixed_env_def reply_def fresh_def raise_for_status_def Let_def)
  show ?thesis
    using update_status_success_iff [OF t] update_status_success_iff [OF f]
      update_status_success_iff [OF e]
    by simp
qed

text \<open>
  C10. Each of the four forms that call \<open>api_post\<close> shows its confirmation only for a
  truthy result. So a POST answered with a status from 200 to 299 and an empty body,
  for which \<open>api_post\<close> returns the empty dict, leaves the screen as it was in all four
  forms, and what each form does with the empty dict is what it does with \<open>None\<close>.
\<close>

theorem empty_record_never_confirms:
  assumes "200 \<le> status_code r" and "status_code r < 300" and "resp_text r = []"
  shows "(net env (sent s) (post_request base ''/products/''
              (product_payload sku name description price_usd weight_kg origin)) = Returns r \<longrightarrow>
            create_product env base sku name description price_usd weight_kg origin True s
              = (None, s\<lparr>sent := sent s @ [post_request base ''/products/''
                    (product_payload sku name description price_usd weight_kg origin)]\<rparr>)) \<and>
         (items \<noteq> [] \<longrightarrow>
          net env (sent s) (post_request base ''/orders/''
              (order_payload customer_name customer_email ship_to_city ship_to_state ship_to_zip
                 items)) = Returns r \<longrightarrow>
            create_order_submit env base customer_name customer_email ship_to_city ship_to_state
                ship_to_zip items True s
              = (None, s\<lparr>sent := sent s @ [post_request base ''/orders/''
                    (order_payload customer_name customer_email ship_to_city ship_to_state
                       ship_to_zip items)]\<rparr>)) \<and>
         (net env (sent s) (post_request base ''/shipping/create''
              (shipment_payload order_id carrier tracking dest_city dest_state)) = Returns r \<longrightarrow>
            create_shipment env base order_id carrier tracking dest_city dest_state True s
              = (None, s\<lparr>sent := sent s @ [post_request base ''/shipping/create''
                    (shipment_payload order_id carrier tracking dest_city dest_state)]\<rparr>)) \<and>
         (net env (sent s) (post_request base (status_path shipment_id new_status) (JObj []))
              = Returns r \<longrightarrow>
            update_status env base shipment_id new_status True s
              = (None, s\<lparr>sent := sent s @ [post_request base (status_path shipment_id new_status)
                    (JObj [])]\<rparr>)) \<and>
         (\<not> truthy res \<longrightarrow>
            create_product_confirm env res s = (None, s) \<and>
            create_order_confirm env res s = (None, s) \<and>
            create_shipment_confirm env res s = (None, s) \<and>
            update_status_confirm shipment_id new_status res s = (None, s)) \<and>
         create_product_confirm env (JObj []) s = create_product_confirm env JNull s \<and>
         create_order_confirm env (JObj []) s = create_order_confirm env JNull s \<and>
         create_shipment_confirm env (JObj []) s = create_shipment_confirm env JNull s \<and>
         update_status_confirm shipment_id new_status (JObj []) s
           = update_status_confirm shipment_id new_status JNull s"
proof -
  note empty = api_post_2xx_empty [OF _ assms]
  have p: "net env (sent s) (post_request base ''/products/''
              (product_payload sku name description price_usd weight_kg origin)) = Returns r \<Longrightarrow>
            create_product env base sku name description price_usd weight_kg origin True s
              = (None, s\<lparr>sent := sent s @ [post_request base ''/products/''
                    (product_payload sku name description price_usd weight_kg origin)]\<rparr>)"
    by (simp add: create_product_def empty create_product_confirm_def)
  have ord: "items \<noteq> [] \<Longrightarrow>
          net env (sent s) (post_request base ''/orders/''
              (order_payload customer_name customer_email ship_to_city ship_to_state ship_to_zip
                 items)) = Returns r \<Longrightarrow>
            create_order_submit env base customer_name customer_email ship_to_city ship_to_state
                ship_to_zip items True s
              = (None, s\<lparr>sent := sent s @ [post_request base ''/orders/''
                    (order_payload customer_name customer_email ship_to_city ship_to_state
                       ship_to_zip items)]\<rparr>)"
    by (simp add: create_order_submit_def empty create_order_confirm_def)
  have sh: "net env (sent s) (post_request base ''/shipping/create''
              (shipment_payload order_id carrier tracking dest_city dest_state)) = Returns r \<Longrightarrow>
            create_shipment env base order_id carrier tracking dest_city dest_state True s
              = (None, s\<lparr>sent := sent s @ [post_request base ''/shipping/create''
                    (shipment_payload order_id carrier tracking dest_city dest_state)]\<rparr>)"
    by (simp add: create_shipment_def empty create_shipment_confirm_def)
  have up: "net env (sent s) (post_request base (status_path shipment_id new_status) (JObj []))
              = Returns r \<Longrightarrow>
            update_status env base shipment_id new_status True s
              = (None, s\<lparr>sent := sent s @ [post_request base (status_path shipment_id new_status)
                    (JObj [])]\<rparr>)"
    by (simp add: update_status_def empty update_status_confirm_def)
  have gate: "\<not> truthy res \<Longrightarrow>
            create_product_confirm env res s = (None, s) \<and>
            create_order_confirm env res s = (None, s) \<and>
            create_shipment_confirm env res s = (None, s) \<and>
            update_status_confirm shipment_id new_status res s = (None, s)"
    by (simp add: create_product_confirm_def create_order_confirm_def
        create_shipment_confirm_def update_status_confirm_def)
  have same: "create_product_confirm env (JObj []) s = create_product_confirm env JNull s"
    "create_order_confirm env (JObj []) s = create_order_confirm env JNull s"
    "create_shipment_confirm env (JObj []) s = create_shipment_confirm env JNull s"
    "update_status_confirm shipment_id new_status (JObj []) s
       = update_status_confirm shipment_id new_status JNull s"
    by (simp_all add: create_product_confirm_def create_order_confirm_def
        create_shipment_confirm_def update_status_confirm_def)
  from p ord sh up gate same show ?thesis by blast
qed

theorem empty_record_never_confirms_witness:
  "create_product (fixed_env (reply 204 ''No Content'' [])) ''http://localhost:8000''
       ''WAL-0001'' ''Playera'' ''Algodon'' 0 0 ''US'' True fresh
     = (None, \<lparr>sent = [post_request ''http://localhost:8000'' ''/products/''
                          (product_payload ''WAL-0001'' ''Playera'' ''Algodon'' 0 0 ''US'')],
                shown = []\<rparr>) \<and>
   create_order_submit (fixed_env (reply 204 ''No Content'' [])) ''http://localhost:8000''
       ''Juan'' ''juan@example.com'' ''Monterrey'' ''NL'' ''64000''
       [JObj [(''product_id'', JNum 1), (''qty'', JNum 1)]] True fresh
     = (None, \<lparr>sent = [post_request ''http://localhost:8000'' ''/orders/''
                          (order_payload ''Juan'' ''juan@example.com'' ''Monterrey'' ''NL'' ''64000''
                             [JObj [(''product_id'', JNum 1), (''qty'', JNum 1)]])],
                shown = []\<rparr>) \<and>
   create_shipment (fixed_env (reply 204 ''No Content'' [])) ''http://localhost:8000''
       1 ''DeliverFever'' ''DF-TEST-001'' ''Monterrey'' ''NL'' True fresh
     = (None, \<lparr>sent = [post_request ''http://localhost:8000'' ''/shipping/create''
                          (shipment_payload 1 ''DeliverFever'' ''DF-TEST-001'' ''Monterrey'' ''NL'')],
                shown = []\<rparr>) \<and>
   update_status (fixed_env (reply 204 ''No Content'' [])) ''http://localhost:8000'' 1 ''at_df''
       True fresh
     = (None, \<lparr>sent = [post_request ''http://localhost:8000'' (status_path 1 ''at_df'') (JObj [])],
                shown = []\<rparr>) \<and>
   create_product_confirm (fixed_env (reply 204 ''No Content'' [])) (JList []) fresh = (None, fresh)"
  using empty_record_never_confirms [of
      "\<lparr>status_code = 204, reason = ''No Content'',
        resp_url = ''http://localhost:8000/orders'', resp_text = []\<rparr>"
      "fixed_env (reply 204 ''No Content'' [])" fresh "''http://localhost:8000''"
      "''WAL-0001''" "''Playera''" "''Algodon''" 0 0 "''US''"
      "[JObj [(''product_id'', JNum 1), (''qty'', JNum 1)]]"
      "''Juan''" "''juan@example.com''" "''Monterrey''" "''NL''" "''64000''"
      1 "''DeliverFever''" "''DF-TEST-001''" "''Monterrey''" "''NL''" 1 "''at_df''" "JList []"]
  by (simp add: fixed_env_def reply_def fresh_def)

section \<open>Properties of the overview panel\<close>

lemma counts_get_value_counts:
  "value_counts col = Inr counts \<Longrightarrow>
   counts_get counts k 0 = int (count_list (concat (map present col)) k)"
  by (auto simp: value_counts_def counts_get_def Let_def map_of_map_restrict restrict_map_def
      split: if_splits)

lemma count_present_status:
  "count_list (concat (map present (map (\<lambda>r. map_of r ''status'') rs))) (JStr k)
     = length (filter (\<lambda>r. map_of r ''status'' = Some (JStr k)) rs)"
proof (induction rs)
  case Nil
  then show ?case by simp
next
  case (Cons r rs)
  then show ?case by (cases "map_of r ''status''") auto
qed

lemma rows_of_status_count:
  "rows_of orders = Some rs \<Longrightarrow>
   length (filter (\<lambda>r. map_of r ''status'' = Some (JStr k)) rs) = orders_with_status k orders"
  unfolding orders_with_status_def
  by (induction orders arbitrary: rs rule: rows_of.induct) (auto split: option.splits)

lemma tab_overview_counts:
  assumes fetch: "api_get env base ''/orders'' s = (JList orders, s1)"
    and rows: "rows_of orders = Some rs"
    and col: "''status'' \<in> set (df_columns rs)"
    and hashable: "\<not> list_ex unhashable (concat (map present (map (\<lambda>r. map_of r ''status'') rs)))"
  shows "tab_overview env base s
           = (None, s1\<lparr>shown := shown s1 @
                [Metric ''Pending'' (int (orders_with_status ''pending'' orders)),
                 Metric ''Forwarding'' (int (orders_with_status ''forwarding'' orders)),
                 Metric ''At DF'' (int (orders_with_status ''at_df'' orders)),
                 Metric ''En MX'' (int (orders_with_status ''in_transit_mx'' orders)),
                 Metric ''Entregadas'' (int (orders_with_status ''delivered'' orders)),
                 Dataframe (JList orders)]\<rparr>)"
proof -
  obtain counts where vc: "value_counts (map (\<lambda>r. map_of r ''status'') rs) = Inr counts"
    using hashable by (simp add: value_counts_def Let_def)
  have get: "counts_get counts (JStr k) 0 = int (orders_with_status k orders)" for k
    using counts_get_value_counts [OF vc] count_present_status rows_of_status_count [OF rows]
    by simp
  have "df_columns rs \<noteq> []"
    using col by auto
  moreover have "rs \<noteq> []"
    using col by (auto simp: df_columns_def)
  ultimately have nonempty: "\<not> df_empty rs"
    by (simp add: df_empty_def)
  have column: "df_column rs ''status'' = Inr (map (\<lambda>r. map_of r ''status'') rs)"
    using col by (simp add: df_column_def)
  show ?thesis
    using rows by (simp add: tab_overview_def fetch nonempty column vc get display_def Let_def)
qed

lemma is_order_rows:
  "list_all is_order orders \<Longrightarrow> \<exists>rs. rows_of orders = Some rs \<and>
     list_all (\<lambda>r. \<exists>k. map_of r ''status'' = Some (JStr k)) rs \<and> length rs = length orders"
proof (induction orders rule: rows_of.induct)
  case 1
  then show ?case by simp
next
  case (2 kvs xs)
  then show ?case by (auto split: option.splits json.splits)
qed simp_all

lemma string_status_hashable:
  "list_all (\<lambda>r. \<exists>k. map_of r ''status'' = Some (JStr k)) rs \<Longrightarrow>
   \<not> list_ex unhashable (concat (map present (map (\<lambda>r. map_of r ''status'') rs)))"
  by (induction rs) auto

lemma string_status_column:
  "list_all (\<lambda>r. \<exists>k. map_of r ''status'' = Some (JStr k)) rs \<Longrightarrow> rs \<noteq> [] \<Longrightarrow>
   ''status'' \<in> set (df_columns rs)"
  by (cases rs) (auto simp: df_columns_def dest: map_of_SomeD intro: rev_image_eqI)

text \<open>
  C4. When the overview fetches a list of orders that is not empty, the panel shows five
  metrics and then the table, and nothing else; the metrics are the numbers of orders
  whose status is \<open>pending\<close>, \<open>forwarding\<close>, \<open>at_df\<close>, \<open>in_transit_mx\<close> and
  \<open>delivered\<close>, in this order, so a status that no order carries is shown as 0. For
  the three orders pending, pending, delivered they are 2, 0, 0, 0 and 1.
\<close>

theorem overview_metrics:
  assumes "api_get env base ''/orders'' s = (JList orders, s1)"
    and "orders \<noteq> []" and "list_all is_order orders"
  shows "tab_overview env base s
           = (None, s1\<lparr>shown := shown s1 @
                [Metric ''Pending'' (int (orders_with_status ''pending'' orders)),
                 Metric ''Forwarding'' (int (orders_with_status ''forwarding'' orders)),
                 Metric ''At DF'' (int (orders_with_status ''at_df'' orders)),
                 Metric ''En MX'' (int (orders_with_status ''in_transit_mx'' orders)),
                 Metric ''Entregadas'' (int (orders_with_status ''delivered'' orders)),
                 Dataframe (JList orders)]\<rparr>)"
proof -
  obtain rs where rs: "rows_of orders = Some rs"
    "list_all (\<lambda>r. \<exists>k. map_of r ''status'' = Some (JStr k)) rs" "length rs = length orders"
    using is_order_rows [OF assms(3)] by blast
  from rs(3) assms(2) have "rs \<noteq> []" by auto
  then show ?thesis
    using tab_overview_counts [OF assms(1) rs(1) string_status_column [OF rs(2)]
        string_status_hashable [OF rs(2)]]
    by simp
qed


theorem overview_metrics_witness:
  "tab_overview (parsed_env three_orders) ''http://localhost:8000'' fresh
   = (None,
      \<lparr>sent = [get_request ''http://localhost:8000'' ''/orders''],
        shown = [Metric ''Pending'' 2, Metric ''Forwarding'' 0, Metric ''At DF'' 0,
                 Metric ''En MX'' 0, Metric ''Entregadas'' 1, Dataframe three_orders]\<rparr>)"
proof -
  have fetch: "api_get (parsed_env three_orders) ''http://localhost:8000'' ''/orders'' fresh
     = (JList [JObj [(''status'', JStr ''pending'')],
               JObj [(''status'', JStr ''pending'')],
               JObj [(''status'', JStr ''delivered'')]],
        \<lparr>sent = [get_request ''http://localhost:8000'' ''/orders''], shown = []\<rparr>)"
    by (simp add: api_get_def parsed_env_def three_orders_def reply_def fresh_def
        raise_for_status_def)
  show ?thesis
    using overview_metrics [OF fetch]
    by (simp add: orders_with_status_def three_orders_def)
qed

section \<open>Properties of the order form\<close>

lemma api_get_sent: "sent (snd (api_get env base path s)) = sent s @ [get_request base path]"
  by (simp add: api_get_def Let_def display_def split: http_outcome.splits option.splits sum.splits)

lemma api_post_sent:
  "sent (snd (api_post env base path payload s)) = sent s @ [post_request base path payload]"
  by (simp add: api_post_def Let_def display_def split: http_outcome.splits option.splits sum.splits)

lemma create_order_confirm_sent: "sent (snd (create_order_confirm env res s)) = sent s"
  by (simp add: create_order_confirm_def display_def split: sum.splits)

lemma create_order_submit_sent:
  "items \<noteq> [] \<Longrightarrow>
   sent (snd (create_order_submit env base customer_name customer_email ship_to_city ship_to_state
                ship_to_zip items True s))
     = sent s @ [post_request base ''/orders/''
                   (order_payload customer_name customer_email ship_to_city ship_to_state
                      ship_to_zip items)]"
  using api_post_sent [of env base "''/orders/''"
      "order_payload customer_name customer_email ship_to_city ship_to_state ship_to_zip items" s]
  by (auto simp: create_order_submit_def create_order_confirm_sent split: prod.splits)

text \<open>
  C5. When the products fetched for the order form are an empty list (or any falsy
  result), a submission shows the warning and the blocking error and sends nothing: the
  only request of the form is the GET of the products. When they are exactly one
  product, with an id, a name and a sku, a submission sends one POST to \<open>/orders/\<close>
  whose payload has an \<open>items\<close> list of exactly one element, with that product's id as
  \<open>product_id\<close> and the quantity entered as \<open>qty\<close>; for the quantity 1 that is 1.
\<close>

theorem create_order_items:
  assumes "api_get env base ''/products'' s = (fetched, s1)"
  shows "(\<not> truthy fetched \<longrightarrow>
            create_order env base customer_name customer_email ship_to_city ship_to_state
                ship_to_zip choice qty True s
              = (None, s1\<lparr>shown := shown s1 @ [Warning no_products_warning,
                                                 Error ''Agrega al menos un producto.'']\<rparr>) \<and>
            sent s1 = sent s @ [get_request base ''/products'']) \<and>
         (fetched = JList [JObj kvs] \<and> map_of kvs ''id'' = Some pid \<and>
          map_of kvs ''name'' = Some pname \<and> map_of kvs ''sku'' = Some psku \<longrightarrow>
            sent (snd (create_order env base customer_name customer_email ship_to_city
                         ship_to_state ship_to_zip choice qty True s))
              = sent s @ [get_request base ''/products'',
                          post_request base ''/orders/''
                            (order_payload customer_name customer_email ship_to_city ship_to_state
                               ship_to_zip [JObj [(''product_id'', pid), (''qty'', JNum qty)]])] \<and>
            body (post_request base ''/orders/''
                    (order_payload customer_name customer_email ship_to_city ship_to_state
                       ship_to_zip [JObj [(''product_id'', pid), (''qty'', JNum qty)]]))
              = Some (order_payload customer_name customer_email ship_to_city ship_to_state
                        ship_to_zip [JObj [(''product_id'', pid), (''qty'', JNum qty)]]) \<and>
            py_get (order_payload customer_name customer_email ship_to_city ship_to_state
                      ship_to_zip [JObj [(''product_id'', pid), (''qty'', JNum qty)]]) ''items''
              = Inr (JList [JObj [(''product_id'', pid), (''qty'', JNum qty)]]))"
proof (intro conjI impI)
  assume "\<not> truthy fetched"
  then show "create_order env base customer_name customer_email ship_to_city ship_to_state
                ship_to_zip choice qty True s
              = (None, s1\<lparr>shown := shown s1 @ [Warning no_products_warning,
                                                 Error ''Agrega al menos un producto.'']\<rparr>)"
    by (simp add: create_order_def assms py_or_def create_order_submit_def display_def)
next
  show "sent s1 = sent s @ [get_request base ''/products'']"
    using api_get_sent [of env base "''/products''" s] assms by simp
next
  assume one: "fetched = JList [JObj kvs] \<and> map_of kvs ''id'' = Some pid \<and>
          map_of kvs ''name'' = Some pname \<and> map_of kvs ''sku'' = Some psku"
  have s1: "sent s1 = sent s @ [get_request base ''/products'']"
    using api_get_sent [of env base "''/products''" s] assms by simp
  have entry: "product_entry env (JObj kvs)
                 = Inr (''['' @ py_str env pid @ ''] '' @ py_str env pname @ '' (SKU ''
                          @ py_str env psku @ '')'', pid)"
    using one by (simp add: product_entry_def)
  show "sent (snd (create_order env base customer_name customer_email ship_to_city
                         ship_to_state ship_to_zip choice qty True s))
              = sent s @ [get_request base ''/products'',
                          post_request base ''/orders/''
                            (order_payload customer_name customer_email ship_to_city ship_to_state
                               ship_to_zip [JObj [(''product_id'', pid), (''qty'', JNum qty)]])]"
    using one
    by (simp add: create_order_def assms py_or_def entry selectbox_def create_order_submit_sent s1)
next
  show "body (post_request base ''/orders/''
                    (order_payload customer_name customer_email ship_to_city ship_to_state
                       ship_to_zip [JObj [(''product_id'', pid), (''qty'', JNum qty)]]))
              = Some (order_payload customer_name customer_email ship_to_city ship_to_state
                        ship_to_zip [JObj [(''product_id'', pid), (''qty'', JNum qty)]])"
    by (simp add: post_request_def py_or_def order_payload_def)
next
  show "py_get (order_payload customer_name customer_email ship_to_city ship_to_state
                      ship_to_zip [JObj [(''product_id'', pid), (''qty'', JNum qty)]]) ''items''
              = Inr (JList [JObj [(''product_id'', pid), (''qty'', JNum qty)]])"
    by (simp add: order_payload_def)
qed

theorem create_order_items_witness:
  "create_order (parsed_env (JList [])) ''http://localhost:8000'' ''Juan'' ''juan@example.com''
       ''Monterrey'' ''NL'' ''64000'' 0 1 True fresh
     = (None, \<lparr>sent = [get_request ''http://localhost:8000'' ''/products''],
                shown = [Warning no_products_warning, Error ''Agrega al menos un producto.'']\<rparr>) \<and>
   sent (snd (create_order (parsed_env one_product) ''http://localhost:8000'' ''Juan''
                ''juan@example.com'' ''Monterrey'' ''NL'' ''64000'' 0 1 True fresh))
     = [get_request ''http://localhost:8000'' ''/products'',
        post_request ''http://localhost:8000'' ''/orders/''
          (order_payload ''Juan'' ''juan@example.com'' ''Monterrey'' ''NL'' ''64000''
             [JObj [(''product_id'', JNum 7), (''qty'', JNum 1)]])]"
proof -
  have none: "api_get (parsed_env (JList [])) ''http://localhost:8000'' ''/products'' fresh
     = (JList [], \<lparr>sent = [get_request ''http://localhost:8000'' ''/products''], shown = []\<rparr>)"
    by (simp add: api_get_def parsed_env_def reply_def fresh_def raise_for_status_def)
  have one: "api_get (parsed_env one_product) ''http://localhost:8000'' ''/products'' fresh
     = (one_product, \<lparr>sent = [get_request ''http://localhost:8000'' ''/products''], shown = []\<rparr>)"
    by (simp add: api_get_def parsed_env_def reply_def fresh_def raise_for_status_def)
  show ?thesis
    using create_order_items [OF none, of "''Juan''" "''juan@example.com''" "''Monterrey''"
        "''NL''" "''64000''" 0 1]
      create_order_items [OF one, of "''Juan''" "''juan@example.com''" "''Monterrey''"
        "''NL''" "''64000''" 0 1 "[(''id'', JNum 7), (''sku'', JStr ''WAL-0001''),
                              (''name'', JStr ''Playera'')]" "JNum 7" "JStr ''Playera''"
        "JStr ''WAL-0001''"]
    by (simp add: one_product_def fresh_def)
qed

end
